theory Spec2Isabelle
  imports Complex_Main "HOL-Library.List_Lexorder"
begin

text \<open>
  The ledger of \<open>main.py\<close>: the dataclass \<open>Movimiento\<close> and the class
  \<open>GestorFinanzas\<close>, which loads the entries from a JSON file, appends entries and
  rewrites the file, and computes the summaries. Strings are sequences of code points,
  numbers are exact rationals, objects live in a heap of references, and the file is the
  value \<open>json.load\<close> returns for it. The command line front end (\<open>crear_parser\<close>,
  \<open>main\<close>) only parses arguments and prints, and is not part of the development.
\<close>

section \<open>Python values\<close>

text \<open>
  A Python \<open>str\<close> is a sequence of Unicode code points. Code points are compared as
  numbers and sequences lexicographically, which is the order of Python's \<open>str\<close> and the
  order of \<open>nat list\<close> here.
\<close>

type_synonym str = "nat list"

definition py :: "string \<Rightarrow> str" where
  "py s = map of_char s"

text \<open>
  \<open>str.isspace\<close> on one code point: the table of CPython's \<open>_PyUnicode_IsWhitespace\<close>
  (U+0009..U+000D, U+001C..U+0020, U+0085, U+00A0, U+1680, U+2000..U+200A, U+2028, U+2029,
  U+202F, U+205F, U+3000).
\<close>

definition isspace :: "nat \<Rightarrow> bool" where
  "isspace c \<longleftrightarrow>
     (9 \<le> c \<and> c \<le> 13) \<or> (28 \<le> c \<and> c \<le> 32) \<or> c = 133 \<or> c = 160 \<or> c = 5760 \<or>
     (8192 \<le> c \<and> c \<le> 8202) \<or> c = 8232 \<or> c = 8233 \<or> c = 8239 \<or> c = 8287 \<or> c = 12288"

text \<open>\<open>s.strip()\<close>: the whitespace at both ends is dropped.\<close>

definition strip :: "str \<Rightarrow> str" where
  "strip s = rev (dropWhile isspace (rev (dropWhile isspace s)))"

text \<open>
  The values \<open>json.load\<close> produces and \<open>json.dump\<close> accepts: \<open>None\<close>, \<open>bool\<close>, numbers,
  \<open>str\<close>, \<open>list\<close> and \<open>dict\<close> with \<open>str\<close> keys (a dict is the list of its items in
  insertion order; its keys are distinct). A number is its exact value: an \<open>int\<close>, or a
  finite \<open>float\<close>, which is a dyadic rational. Arithmetic on numbers is exact in this
  model; the rounding of binary floating point addition, infinities and NaN are outside it.
\<close>

datatype valor =
    PNone
  | PBool bool
  | PNum rat
  | PStr str
  | PList "valor list"
  | PDict "(str \<times> valor) list"

text \<open>
  The dataclass \<open>Movimiento\<close>. Python does not enforce the annotations
  (\<open>str, float, str, str, str\<close>): a field holds whatever value it was given.
\<close>

record Movimiento =
  tipo :: valor
  monto :: valor
  categoria :: valor
  descripcion :: valor
  fecha :: valor

text \<open>
  The exceptions of the program. The two \<open>ValueError\<close>s of \<open>agregar_movimiento\<close> and
  \<open>resumen_por_categoria\<close> differ in their message: \<open>ValueError_tipo\<close> is
  "El tipo debe ser 'ingreso' o 'gasto'." and \<open>ValueError_monto\<close> is
  "El monto debe ser mayor que cero.". \<open>JSONDecodeError\<close> is raised by \<open>json.load\<close>,
  \<open>TypeError\<close> by the interpreter. (\<open>json.load\<close> on bytes that are not UTF-8 raises
  \<open>UnicodeDecodeError\<close>; the model does not tell it from \<open>JSONDecodeError\<close>.)
\<close>

datatype error = ValueError_tipo | ValueError_monto | JSONDecodeError | TypeError

section \<open>The date of the day\<close>

text \<open>
  \<open>date.today()\<close> reads the clock; the date read is a parameter of the model.
  \<open>isoformat\<close> prints it as \<open>%04d-%02d-%02d\<close>.
\<close>

record date =
  year :: nat
  month :: nat
  day :: nat

definition date_ok :: "date \<Rightarrow> bool" where
  "date_ok d \<longleftrightarrow> 1 \<le> year d \<and> year d \<le> 9999 \<and> 1 \<le> month d \<and> month d \<le> 12 \<and>
     1 \<le> day d \<and> day d \<le> 31"

fun decimal :: "nat \<Rightarrow> nat \<Rightarrow> str" where
  "decimal 0 n = (if n = 0 then [] else decimal 0 (n div 10) @ [48 + n mod 10])"
| "decimal (Suc w) n = decimal w (n div 10) @ [48 + n mod 10]"

declare decimal.simps [simp del]

definition isoformat :: "date \<Rightarrow> str" where
  "isoformat d = decimal 4 (year d) @ [45] @ decimal 2 (month d) @ [45] @ decimal 2 (day d)"

section \<open>The heap and the file\<close>

text \<open>
  Instances of \<open>Movimiento\<close> and list objects live in a heap and are named by references;
  \<open>libre\<close> is the next unused reference. \<open>movimientos\<close> is the attribute
  \<open>self.movimientos\<close>: a reference to a list object that holds references to instances.
  \<open>archivo\<close> is the file at \<open>self.db_path\<close> (\<open>None\<close>: no such file), abstracted to what
  \<open>json.load\<close> makes of its text: a decoding error or a value. \<open>json.dump\<close> followed by
  \<open>json.load\<close> gives the value back; writing always succeeds in this model.
\<close>

datatype fichero = NoJSON | JSON valor

record mundo =
  instancias :: "nat \<Rightarrow> Movimiento"
  listas :: "nat \<Rightarrow> nat list"
  libre :: nat
  movimientos :: nat
  archivo :: "fichero option"

text \<open>The sequence of entries the store holds in memory.\<close>

definition entradas :: "mundo \<Rightarrow> Movimiento list" where
  "entradas w = map (instancias w) (listas w (movimientos w))"

definition nueva_instancia :: "Movimiento \<Rightarrow> mundo \<Rightarrow> nat \<times> mundo" where
  "nueva_instancia m w =
     (libre w, w\<lparr>instancias := (instancias w)(libre w := m), libre := libre w + 1\<rparr>)"

definition nueva_lista :: "nat list \<Rightarrow> mundo \<Rightarrow> nat \<times> mundo" where
  "nueva_lista xs w =
     (libre w, w\<lparr>listas := (listas w)(libre w := xs), libre := libre w + 1\<rparr>)"

section \<open>Loading and saving\<close>

definition asdict :: "Movimiento \<Rightarrow> valor" where
  "asdict m = PDict [(py ''tipo'', tipo m), (py ''monto'', monto m),
     (py ''categoria'', categoria m), (py ''descripcion'', descripcion m),
     (py ''fecha'', fecha m)]"

definition guardar :: "mundo \<Rightarrow> mundo" where
  "guardar w = w\<lparr>archivo := Some (JSON (PList (map asdict (entradas w))))\<rparr>"

text \<open>\<open>for item in data\<close>: what iterating over a loaded value yields.\<close>

fun iterar :: "valor \<Rightarrow> error + valor list" where
  "iterar (PList xs) = Inr xs"
| "iterar (PDict kvs) = Inr (map (\<lambda>kv. PStr (fst kv)) kvs)"
| "iterar (PStr s) = Inr (map (\<lambda>c. PStr [c]) s)"
| "iterar _ = Inl TypeError"

definition campos :: "str list" where
  "campos = [py ''tipo'', py ''monto'', py ''categoria'', py ''descripcion'', py ''fecha'']"

text \<open>
  \<open>Movimiento(**item)\<close>: \<open>item\<close> must be a mapping, every key must name a field and every
  field must be given; otherwise the call raises \<open>TypeError\<close>.
\<close>

fun Movimiento_kw :: "valor \<Rightarrow> error + Movimiento" where
  "Movimiento_kw (PDict kw) =
     (if \<exists>k \<in> set (map fst kw). k \<notin> set campos then Inl TypeError
      else case (map_of kw (py ''tipo''), map_of kw (py ''monto''),
                 map_of kw (py ''categoria''), map_of kw (py ''descripcion''),
                 map_of kw (py ''fecha'')) of
          (Some t, Some m, Some c, Some d, Some f) \<Rightarrow>
            Inr \<lparr>tipo = t, monto = m, categoria = c, descripcion = d, fecha = f\<rparr>
        | _ \<Rightarrow> Inl TypeError)"
| "Movimiento_kw _ = Inl TypeError"

text \<open>The comprehension \<open>[Movimiento(**item) for item in data]\<close>, item by item.\<close>

fun construye :: "valor list \<Rightarrow> error + Movimiento list" where
  "construye [] = Inr []"
| "construye (item # items) =
     (case Movimiento_kw item of
        Inl e \<Rightarrow> Inl e
      | Inr m \<Rightarrow> (case construye items of Inl e \<Rightarrow> Inl e | Inr ms \<Rightarrow> Inr (m # ms)))"

fun asigna :: "Movimiento list \<Rightarrow> mundo \<Rightarrow> nat list \<times> mundo" where
  "asigna [] w = ([], w)"
| "asigna (m # ms) w =
     (case nueva_instancia m w of
        (a, w1) \<Rightarrow> (case asigna ms w1 of (rs, w2) \<Rightarrow> (a # rs, w2)))"

text \<open>
  \<open>_cargar\<close>. When it raises, \<open>self.movimientos\<close> is what it was; the instances built before
  the exception are unreachable and are not recorded.
\<close>

definition cargar :: "mundo \<Rightarrow> (error + unit) \<times> mundo" where
  "cargar w =
     (case archivo w of
        None \<Rightarrow> (case nueva_lista [] w of (l, w1) \<Rightarrow> (Inr (), w1\<lparr>movimientos := l\<rparr>))
      | Some NoJSON \<Rightarrow> (Inl JSONDecodeError, w)
      | Some (JSON data) \<Rightarrow>
          (case iterar data of
             Inl e \<Rightarrow> (Inl e, w)
           | Inr items \<Rightarrow>
               (case construye items of
                  Inl e \<Rightarrow> (Inl e, w)
                | Inr ms \<Rightarrow>
                    (case asigna ms w of (rs, w1) \<Rightarrow>
                       (case nueva_lista rs w1 of (l, w2) \<Rightarrow>
                          (Inr (), w2\<lparr>movimientos := l\<rparr>))))))"

text \<open>\<open>GestorFinanzas(db_path)\<close>: \<open>__init__\<close> binds a new empty list, then loads.\<close>

definition GestorFinanzas :: "mundo \<Rightarrow> (error + unit) \<times> mundo" where
  "GestorFinanzas w = (case nueva_lista [] w of (l, w1) \<Rightarrow> cargar (w1\<lparr>movimientos := l\<rparr>))"

section \<open>The operations of the store\<close>

text \<open>
  The constructor call of \<open>agregar_movimiento\<close>. \<open>x or y\<close> is \<open>y\<close> when \<open>x\<close> is empty
  or \<open>None\<close>; \<open>hoy\<close> is the date \<open>date.today()\<close> reads.
\<close>

definition nuevo_movimiento ::
  "date \<Rightarrow> str \<Rightarrow> rat \<Rightarrow> str \<Rightarrow> str \<Rightarrow> str option \<Rightarrow> Movimiento" where
  "nuevo_movimiento hoy t m c d f =
     \<lparr>tipo = PStr t,
      monto = PNum m,
      categoria = PStr (if strip c = [] then py ''general'' else strip c),
      descripcion = PStr (strip d),
      fecha = PStr (case f of
                      None \<Rightarrow> isoformat hoy
                    | Some s \<Rightarrow> if s = [] then isoformat hoy else s)\<rparr>"

definition agregar_movimiento ::
  "date \<Rightarrow> str \<Rightarrow> rat \<Rightarrow> str \<Rightarrow> str \<Rightarrow> str option \<Rightarrow> mundo \<Rightarrow> (error + nat) \<times> mundo" where
  "agregar_movimiento hoy t m c d f w =
     (if t \<notin> {py ''ingreso'', py ''gasto''} then (Inl ValueError_tipo, w)
      else if m \<le> 0 then (Inl ValueError_monto, w)
      else
        (case nueva_instancia (nuevo_movimiento hoy t m c d f) w of
           (a, w1) \<Rightarrow>
             (Inr a,
              guardar (w1\<lparr>listas := (listas w1)
                 (movimientos w1 := listas w1 (movimientos w1) @ [a])\<rparr>))))"

text \<open>\<open>list(self.movimientos)\<close>: a new list object with the same references.\<close>

definition listar :: "mundo \<Rightarrow> nat \<times> mundo" where
  "listar w = nueva_lista (listas w (movimientos w)) w"

section \<open>Summaries\<close>

text \<open>
  \<open>round(x, 2)\<close>: the multiple of \<open>1/100\<close> nearest to the exact value of \<open>x\<close>, a tie going
  to the even multiple. (For a \<open>float\<close> Python then returns the float nearest to that
  decimal; for an \<open>int\<close> it returns \<open>x\<close> itself, as here.)
\<close>

definition round_half_even :: "rat \<Rightarrow> int" where
  "round_half_even x =
     (let f = \<lfloor>x\<rfloor>; r = x - of_int f
      in if r < 1 / 2 then f else if 1 / 2 < r then f + 1 else if even f then f else f + 1)"

definition round2 :: "rat \<Rightarrow> rat" where
  "round2 x = of_int (round_half_even (x * 100)) / 100"

text \<open>The number a value is in an addition: \<open>True\<close> and \<open>False\<close> are \<open>1\<close> and \<open>0\<close>.\<close>

fun num :: "valor \<Rightarrow> rat option" where
  "num (PNum r) = Some r"
| "num (PBool b) = Some (if b then 1 else 0)"
| "num _ = None"

text \<open>\<open>sum\<close>: from \<open>0\<close>, left to right; adding anything but a number raises \<open>TypeError\<close>.\<close>

fun sum_py :: "rat \<Rightarrow> valor list \<Rightarrow> error + rat" where
  "sum_py acc [] = Inr acc"
| "sum_py acc (v # vs) =
     (case num v of None \<Rightarrow> Inl TypeError | Some r \<Rightarrow> sum_py (acc + r) vs)"

record Resumen =
  ingresos :: rat
  gastos :: rat
  balance :: rat

definition resumen :: "mundo \<Rightarrow> (error + Resumen) \<times> mundo" where
  "resumen w =
     (case sum_py 0 (map monto (filter (\<lambda>m. tipo m = PStr (py ''ingreso'')) (entradas w))) of
        Inl e \<Rightarrow> (Inl e, w)
      | Inr i \<Rightarrow>
          (case sum_py 0 (map monto (filter (\<lambda>m. tipo m = PStr (py ''gasto'')) (entradas w))) of
             Inl e \<Rightarrow> (Inl e, w)
           | Inr g \<Rightarrow>
               (Inr \<lparr>ingresos = round2 i, gastos = round2 g, balance = round2 (i - g)\<rparr>, w)))"

text \<open>
  The dict \<open>totales\<close>, as the list of its items in insertion order. A list or a dict is not
  hashable. Two keys are the same key when they are equal in Python: \<open>True\<close> is \<open>1\<close> and
  \<open>False\<close> is \<open>0\<close>; \<open>clave\<close> gives the representative. Storing under a key that is present
  keeps the key and its place.
\<close>

fun hashable :: "valor \<Rightarrow> bool" where
  "hashable (PList _) = False"
| "hashable (PDict _) = False"
| "hashable _ = True"

fun clave :: "valor \<Rightarrow> valor" where
  "clave (PBool b) = PNum (if b then 1 else 0)"
| "clave v = v"

fun dict_get :: "(valor \<times> rat) list \<Rightarrow> valor \<Rightarrow> rat \<Rightarrow> rat" where
  "dict_get [] k d = d"
| "dict_get ((k', v) # kvs) k d = (if clave k' = clave k then v else dict_get kvs k d)"

fun dict_set :: "(valor \<times> rat) list \<Rightarrow> valor \<Rightarrow> rat \<Rightarrow> (valor \<times> rat) list" where
  "dict_set [] k v = [(k, v)]"
| "dict_set ((k', v') # kvs) k v =
     (if clave k' = clave k then (k', v) # kvs else (k', v') # dict_set kvs k v)"

text \<open>The loop of \<open>resumen_por_categoria\<close>.\<close>

fun acumula :: "str \<Rightarrow> (valor \<times> rat) list \<Rightarrow> Movimiento list \<Rightarrow> error + (valor \<times> rat) list" where
  "acumula t totales [] = Inr totales"
| "acumula t totales (mov # movs) =
     (if tipo mov \<noteq> PStr t then acumula t totales movs
      else if \<not> hashable (categoria mov) then Inl TypeError
      else case num (monto mov) of
             None \<Rightarrow> Inl TypeError
           | Some r \<Rightarrow>
               acumula t
                 (dict_set totales (categoria mov) (dict_get totales (categoria mov) 0 + r))
                 movs)"

fun es_str :: "valor \<Rightarrow> bool" where
  "es_str (PStr _) = True"
| "es_str _ = False"

fun texto :: "valor \<Rightarrow> str" where
  "texto (PStr s) = s"
| "texto _ = []"

definition numero :: "valor \<Rightarrow> rat" where
  "numero v = (case num v of Some r \<Rightarrow> r | None \<Rightarrow> 0)"

text \<open>
  \<open>sorted(totales.items())\<close>. The items are pairs with distinct keys, so two items are
  ordered by their keys. \<open>str\<close> keys are ordered among themselves, and so are numbers;
  comparing across these kinds, or with \<open>None\<close>, raises \<open>TypeError\<close>, and a sort of two
  or more items whose keys are not all of one kind has to make such a comparison.
\<close>

definition sorted_items :: "(valor \<times> rat) list \<Rightarrow> error + (valor \<times> rat) list" where
  "sorted_items items =
     (if length items \<le> 1 then Inr items
      else if \<forall>k \<in> set (map fst items). es_str k
        then Inr (sort_key (\<lambda>kv. texto (fst kv)) items)
      else if \<forall>k \<in> set (map fst items). num k \<noteq> None
        then Inr (sort_key (\<lambda>kv. numero (fst kv)) items)
      else Inl TypeError)"

definition resumen_por_categoria ::
  "str \<Rightarrow> mundo \<Rightarrow> (error + (valor \<times> rat) list) \<times> mundo" where
  "resumen_por_categoria t w =
     (if t \<notin> {py ''ingreso'', py ''gasto''} then (Inl ValueError_tipo, w)
      else case acumula t [] (entradas w) of
             Inl e \<Rightarrow> (Inl e, w)
           | Inr totales \<Rightarrow>
               (case sorted_items totales of
                  Inl e \<Rightarrow> (Inl e, w)
                | Inr items \<Rightarrow> (Inr (map (\<lambda>kv. (fst kv, round2 (snd kv))) items), w)))"

section \<open>Examples\<close>

text \<open>A process that holds no object yet, and no file at the path.\<close>

definition mundo_vacio :: mundo where
  "mundo_vacio =
     \<lparr>instancias = (\<lambda>_. \<lparr>tipo = PNone, monto = PNone, categoria = PNone,
                          descripcion = PNone, fecha = PNone\<rparr>),
      listas = (\<lambda>_. []), libre = 0, movimientos = 0, archivo = None\<rparr>"

definition hoy_ej :: date where
  "hoy_ej = \<lparr>year = 2024, month = 3, day = 7\<rparr>"

definition mundo_ej :: mundo where
  "mundo_ej = snd (GestorFinanzas mundo_vacio)"

section \<open>Notions for the statements\<close>

text \<open>The entry a call of \<open>agregar_movimiento\<close> returned, if it returned one.\<close>

definition creado :: "(error + nat) \<times> mundo \<Rightarrow> Movimiento option" where
  "creado r = (case fst r of Inl e \<Rightarrow> None | Inr a \<Rightarrow> Some (instancias (snd r) a))"





text \<open>Every reference the store holds has been allocated.\<close>

definition bien_formado :: "mundo \<Rightarrow> bool" where
  "bien_formado w \<longleftrightarrow>
     movimientos w < libre w \<and> (\<forall>a \<in> set (listas w (movimientos w)). a < libre w)"

text \<open>
  A loaded value that is an object with every field of an entry and no other member.
\<close>

fun registro_completo :: "valor \<Rightarrow> bool" where
  "registro_completo (PDict kw) = (set (map fst kw) = set campos)"
| "registro_completo _ = False"






text \<open>What \<open>_cargar\<close> makes of the file, apart from the heap: an exception or the entries.\<close>

definition cargados :: "fichero option \<Rightarrow> error + Movimiento list" where
  "cargados a =
     (case a of
        None \<Rightarrow> Inr []
      | Some NoJSON \<Rightarrow> Inl JSONDecodeError
      | Some (JSON data) \<Rightarrow>
          (case iterar data of Inl e \<Rightarrow> Inl e | Inr items \<Rightarrow> construye items))"

section \<open>Rejected additions\<close>

text \<open>
  C3. \<open>agregar_movimiento\<close> raises the \<open>ValueError\<close> about the kind for every kind other
  than "ingreso" and "gasto", and the \<open>ValueError\<close> about the amount for every amount that
  is zero or negative (the kind is checked first, so this is the error when the kind is
  valid). In both cases the heap and the file are what they were before the call: nothing
  is appended and nothing is written.
\<close>

theorem agregar_movimiento_rechaza:
  "(t \<notin> {py ''ingreso'', py ''gasto''} \<longrightarrow>
      agregar_movimiento hoy t m c d f w = (Inl ValueError_tipo, w)) \<and>
   (t \<in> {py ''ingreso'', py ''gasto''} \<and> m \<le> 0 \<longrightarrow>
      agregar_movimiento hoy t m c d f w = (Inl ValueError_monto, w))"
  by (simp add: agregar_movimiento_def)

theorem agregar_movimiento_rechaza_witness:
  "py ''otro'' \<notin> {py ''ingreso'', py ''gasto''} \<and>
   agregar_movimiento hoy_ej (py ''otro'') 5 (py ''comida'') [] None mundo_ej
     = (Inl ValueError_tipo, mundo_ej) \<and>
   py ''gasto'' \<in> {py ''ingreso'', py ''gasto''} \<and> (0::rat) \<le> 0 \<and>
   agregar_movimiento hoy_ej (py ''gasto'') 0 (py ''comida'') [] None mundo_ej
     = (Inl ValueError_monto, mundo_ej)"
proof -
  have k: "py ''otro'' \<notin> {py ''ingreso'', py ''gasto''}"
    by (simp add: py_def)
  have g: "py ''gasto'' \<in> {py ''ingreso'', py ''gasto''} \<and> (0::rat) \<le> 0"
    by simp
  from k g
    agregar_movimiento_rechaza [of "py ''otro''" hoy_ej 5 "py ''comida''" "[]" None mundo_ej]
    agregar_movimiento_rechaza [of "py ''gasto''" hoy_ej 0 "py ''comida''" "[]" None mundo_ej]
  show ?thesis by blast
qed

section \<open>Adding an entry\<close>


text \<open>
  What \<open>strip\<close> returns: the string without a prefix and a suffix of whitespace, and
  with no whitespace left at either end.
\<close>

lemma strip_forma:
  "\<exists>pre post. s = pre @ strip s @ post \<and>
     (\<forall>x \<in> set pre. isspace x) \<and> (\<forall>x \<in> set post. isspace x) \<and>
     (strip s \<noteq> [] \<longrightarrow> \<not> isspace (hd (strip s)) \<and> \<not> isspace (last (strip s)))"
proof -
  define t where "t = dropWhile isspace s"
  define u where "u = dropWhile isspace (rev t)"
  have st: "strip s = rev u"
    by (simp add: strip_def t_def u_def)
  have 1: "s = takeWhile isspace s @ t"
    by (simp add: t_def)
  have "rev t = takeWhile isspace (rev t) @ u"
    by (simp add: u_def)
  then have "rev (rev t) = rev (takeWhile isspace (rev t) @ u)"
    by simp
  then have 2: "t = rev u @ rev (takeWhile isspace (rev t))"
    by simp
  have 3: "\<forall>x \<in> set (takeWhile isspace s). isspace x"
    "\<forall>x \<in> set (rev (takeWhile isspace (rev t))). isspace x"
    by (auto dest: set_takeWhileD)
  have 4: "\<not> isspace (hd (strip s)) \<and> \<not> isspace (last (strip s))" if n: "strip s \<noteq> []"
  proof -
    from n st have un: "u \<noteq> []" by simp
    then have "\<not> isspace (hd u)"
      unfolding u_def by (rule hd_dropWhile)
    with un have l: "\<not> isspace (last (strip s))"
      by (simp add: st last_rev)
    from un 2 have tn: "t \<noteq> []" by auto
    then have "\<not> isspace (hd t)"
      unfolding t_def by (rule hd_dropWhile)
    moreover from 2 un have "hd t = hd (rev u)"
      by (metis hd_append2 rev_is_Nil_conv)
    ultimately show ?thesis
      using l by (simp add: st)
  qed
  from 1 2 have "s = takeWhile isspace s @ strip s @ rev (takeWhile isspace (rev t))"
    by (simp add: st)
  with 3 4 show ?thesis
    by blast
qed

lemma tipo_valido_ej: "py ''gasto'' \<in> {py ''ingreso'', py ''gasto''}"
  by simp



section \<open>The date of an entry\<close>

lemma decimal_0_0: "decimal 0 0 = []"
  by (simp add: decimal.simps(1))

lemma decimal_2:
  assumes "n < 100"
  shows "decimal 2 n = [48 + n div 10, 48 + n mod 10]"
proof -
  have "decimal (Suc (Suc 0)) n =
      decimal 0 (n div 10 div 10) @ [48 + n div 10 mod 10, 48 + n mod 10]"
    by (simp add: decimal.simps(2))
  moreover have "n div 10 div 10 = 0" and "n div 10 mod 10 = n div 10"
    using assms by simp_all
  ultimately show ?thesis
    by (simp add: numeral_2_eq_2 decimal_0_0)
qed

lemma decimal_4:
  assumes "n < 10000"
  shows "decimal 4 n =
    [48 + n div 1000, 48 + n div 100 mod 10, 48 + n div 10 mod 10, 48 + n mod 10]"
proof -
  have four: "(4::nat) = Suc (Suc (Suc (Suc 0)))"
    by simp
  have "decimal (Suc (Suc (Suc (Suc 0)))) n = decimal 0 (n div 10 div 10 div 10 div 10) @
      [48 + n div 10 div 10 div 10 mod 10, 48 + n div 10 div 10 mod 10,
       48 + n div 10 mod 10, 48 + n mod 10]"
    by (simp add: decimal.simps(2))
  moreover have "n div 10 div 10 div 10 div 10 = 0"
    and "n div 10 div 10 div 10 mod 10 = n div 1000"
    and "n div 10 div 10 = n div 100"
    using assms by (simp_all add: div_mult2_eq [symmetric])
  ultimately show ?thesis
    unfolding four by (simp add: decimal_0_0)
qed

lemma isoformat_forma:
  assumes "date_ok d"
  shows "isoformat d =
    [48 + year d div 1000, 48 + year d div 100 mod 10, 48 + year d div 10 mod 10,
     48 + year d mod 10, 45, 48 + month d div 10, 48 + month d mod 10, 45,
     48 + day d div 10, 48 + day d mod 10]"
proof -
  have "year d < 10000" and "month d < 100" and "day d < 100"
    using assms by (auto simp: date_ok_def)
  then show ?thesis
    by (simp add: isoformat_def decimal_4 decimal_2)
qed

lemma date_ok_hoy_ej: "date_ok hoy_ej"
  by (simp add: date_ok_def hoy_ej_def)

lemma isoformat_hoy_ej: "isoformat hoy_ej = py ''2024-03-07''"
  by (simp add: isoformat_forma [OF date_ok_hoy_ej]) (simp add: hoy_ej_def py_def)

lemma agregar_movimiento_acepta:
  assumes "t \<in> {py ''ingreso'', py ''gasto''}" and "0 < m"
  shows "map_option fecha (creado (agregar_movimiento hoy t m c d f w)) =
     Some (PStr (case f of None \<Rightarrow> isoformat hoy
                 | Some s \<Rightarrow> if s = [] then isoformat hoy else s))"
proof -
  have nk: "\<not> t \<notin> {py ''ingreso'', py ''gasto''}" and nm: "\<not> m \<le> 0"
    using assms by auto
  show ?thesis
    unfolding agregar_movimiento_def if_not_P [OF nk] if_not_P [OF nm]
    by (simp add: creado_def nueva_instancia_def guardar_def nuevo_movimiento_def)
qed

text \<open>
  C8, as the claim states it, fails: a date that is supplied as the empty string is not
  stored; the entry gets the date of the day.
\<close>

theorem fecha_vacia_counterexample:
  "map_option fecha
     (creado (agregar_movimiento hoy_ej (py ''gasto'') 12 (py ''pan'') [] (Some []) mundo_ej))
   = Some (PStr (py ''2024-03-07''))
   \<and> py ''2024-03-07'' \<noteq> []"
proof -
  have m: "(0::rat) < 12" by simp
  show ?thesis
    by (simp add: agregar_movimiento_acepta [OF tipo_valido_ej m] isoformat_hoy_ej)
       (simp add: py_def)
qed

text \<open>
  C8, amended. For a valid kind and amount: a supplied date that is not the empty string
  is stored as it is; when no date is supplied, or the empty string is, the entry gets
  the date of the day, which has the form YYYY-MM-DD (four digits, a hyphen, two digits,
  a hyphen, two digits).
\<close>

theorem agregar_movimiento_fecha:
  assumes "t \<in> {py ''ingreso'', py ''gasto''}" and "0 < m"
  shows "(s \<noteq> [] \<longrightarrow>
            map_option fecha (creado (agregar_movimiento hoy t m c d (Some s) w))
              = Some (PStr s)) \<and>
         (f = None \<or> f = Some [] \<longrightarrow>
            map_option fecha (creado (agregar_movimiento hoy t m c d f w))
              = Some (PStr (isoformat hoy))) \<and>
         (date_ok hoy \<longrightarrow> isoformat hoy =
            [48 + year hoy div 1000, 48 + year hoy div 100 mod 10,
             48 + year hoy div 10 mod 10, 48 + year hoy mod 10, 45,
             48 + month hoy div 10, 48 + month hoy mod 10, 45,
             48 + day hoy div 10, 48 + day hoy mod 10])"
  by (simp add: agregar_movimiento_acepta [OF assms] isoformat_forma)

theorem agregar_movimiento_fecha_witness:
  "py ''gasto'' \<in> {py ''ingreso'', py ''gasto''} \<and> (0::rat) < 12 \<and>
   py ''ayer'' \<noteq> [] \<and> date_ok hoy_ej \<and>
   map_option fecha
     (creado (agregar_movimiento hoy_ej (py ''gasto'') 12 (py ''pan'') [] (Some (py ''ayer''))
        mundo_ej)) = Some (PStr (py ''ayer'')) \<and>
   map_option fecha
     (creado (agregar_movimiento hoy_ej (py ''gasto'') 12 (py ''pan'') [] None mundo_ej))
     = Some (PStr (isoformat hoy_ej)) \<and>
   isoformat hoy_ej = py ''2024-03-07''"
proof -
  have m: "(0::rat) < 12" by simp
  have n: "py ''ayer'' \<noteq> []" by (simp add: py_def)
  have o: "date_ok hoy_ej" by (simp add: date_ok_def hoy_ej_def)
  have v: "[48 + year hoy_ej div 1000, 48 + year hoy_ej div 100 mod 10,
             48 + year hoy_ej div 10 mod 10, 48 + year hoy_ej mod 10, 45,
             48 + month hoy_ej div 10, 48 + month hoy_ej mod 10, 45,
             48 + day hoy_ej div 10, 48 + day hoy_ej mod 10] = py ''2024-03-07''"
    by (simp add: hoy_ej_def py_def)
  note T = agregar_movimiento_fecha [OF tipo_valido_ej m,
      of "py ''ayer''" hoy_ej "py ''pan''" "[]" mundo_ej None]
  from T n have a: "map_option fecha
     (creado (agregar_movimiento hoy_ej (py ''gasto'') 12 (py ''pan'') [] (Some (py ''ayer''))
        mundo_ej)) = Some (PStr (py ''ayer''))"
    by blast
  from T have b: "map_option fecha
     (creado (agregar_movimiento hoy_ej (py ''gasto'') 12 (py ''pan'') [] None mundo_ej))
     = Some (PStr (isoformat hoy_ej))"
    by blast
  from T o have "isoformat hoy_ej = [48 + year hoy_ej div 1000, 48 + year hoy_ej div 100 mod 10,
             48 + year hoy_ej div 10 mod 10, 48 + year hoy_ej mod 10, 45,
             48 + month hoy_ej div 10, 48 + month hoy_ej mod 10, 45,
             48 + day hoy_ej div 10, 48 + day hoy_ej mod 10]"
    by blast
  with v have c: "isoformat hoy_ej = py ''2024-03-07''"
    by (rule_tac trans)
  from tipo_valido_ej m n o a b c show ?thesis
    by blast
qed



section \<open>The heap under the operations\<close>

lemma agregar_movimiento_valido:
  assumes "t \<in> {py ''ingreso'', py ''gasto''}" and "0 < m"
  shows "agregar_movimiento hoy t m c d f w =
    (Inr (libre w),
     guardar (w\<lparr>instancias := (instancias w)(libre w := nuevo_movimiento hoy t m c d f),
               libre := libre w + 1,
               listas := (listas w)(movimientos w := listas w (movimientos w) @ [libre w])\<rparr>))"
proof -
  have nk: "\<not> t \<notin> {py ''ingreso'', py ''gasto''}" and nm: "\<not> m \<le> 0"
    using assms by auto
  show ?thesis
    unfolding agregar_movimiento_def if_not_P [OF nk] if_not_P [OF nm]
    by (simp add: nueva_instancia_def)
qed



lemma archivo_agregar:
  assumes "t \<in> {py ''ingreso'', py ''gasto''}" and "0 < m"
  shows "archivo (snd (agregar_movimiento hoy t m c d f w)) =
    Some (JSON (PList (map asdict (entradas (snd (agregar_movimiento hoy t m c d f w))))))"
  by (simp add: agregar_movimiento_valido [OF assms] guardar_def entradas_def)


lemma asigna_props:
  "asigna ms w = (rs, w') \<Longrightarrow>
     map (instancias w') rs = ms \<and> (\<forall>a \<in> set rs. a < libre w') \<and> libre w \<le> libre w' \<and>
     (\<forall>a < libre w. instancias w' a = instancias w a) \<and>
     listas w' = listas w \<and> archivo w' = archivo w"
proof (induction ms arbitrary: w rs w')
  case Nil
  then show ?case by simp
next
  case (Cons m ms)
  let ?w1 = "w\<lparr>instancias := (instancias w)(libre w := m), libre := libre w + 1\<rparr>"
  obtain rs2 w2 where r: "asigna ms ?w1 = (rs2, w2)"
    by (cases "asigna ms ?w1") auto
  with Cons.prems have e: "rs = libre w # rs2" "w' = w2"
    by (auto simp: nueva_instancia_def)
  from Cons.IH [OF r] have ih:
    "map (instancias w2) rs2 = ms" "\<forall>a \<in> set rs2. a < libre w2" "libre ?w1 \<le> libre w2"
    "\<forall>a < libre ?w1. instancias w2 a = instancias ?w1 a"
    "listas w2 = listas ?w1" "archivo w2 = archivo ?w1"
    by auto
  from ih(4) have "instancias w2 (libre w) = m" by simp
  moreover from ih(4) have "\<forall>a < libre w. instancias w2 a = instancias w a" by simp
  moreover from ih(3) have "libre w < libre w2" by simp
  ultimately show ?case
    using ih(1,2,5,6) e by auto
qed



lemma GestorFinanzas_error:
  assumes "cargados (archivo w) = Inl e"
  shows "fst (GestorFinanzas w) = Inl e"
  using assms
  by (auto simp: GestorFinanzas_def cargar_def cargados_def nueva_lista_def
      split: option.splits fichero.splits sum.splits prod.splits)

lemma GestorFinanzas_carga:
  assumes "cargados (archivo w) = Inr ms"
  shows "fst (GestorFinanzas w) = Inr () \<and> entradas (snd (GestorFinanzas w)) = ms \<and>
    bien_formado (snd (GestorFinanzas w)) \<and> archivo (snd (GestorFinanzas w)) = archivo w"
proof (cases "archivo w")
  case None
  with assms have "ms = []" by (simp add: cargados_def)
  with None show ?thesis
    by (simp add: GestorFinanzas_def cargar_def nueva_lista_def entradas_def bien_formado_def)
next
  case (Some fi)
  let ?w0 = "w\<lparr>listas := (listas w)(libre w := []), libre := libre w + 1,
                movimientos := libre w\<rparr>"
  from assms Some obtain data items where
    d: "fi = JSON data" "iterar data = Inr items" "construye items = Inr ms"
    by (auto simp: cargados_def split: fichero.splits sum.splits)
  obtain rs w1 where a: "asigna ms ?w0 = (rs, w1)"
    by (cases "asigna ms ?w0") auto
  from asigna_props [OF a] have p:
    "map (instancias w1) rs = ms" "\<forall>a \<in> set rs. a < libre w1" "archivo w1 = archivo ?w0"
    by auto
  have g: "GestorFinanzas w =
      (Inr (), w1\<lparr>listas := (listas w1)(libre w1 := rs), libre := libre w1 + 1,
                   movimientos := libre w1\<rparr>)"
    using Some d a by (simp add: GestorFinanzas_def cargar_def nueva_lista_def)
  show ?thesis
    using p by (auto simp: g entradas_def bien_formado_def)
qed






section \<open>Writing and loading again\<close>






section \<open>Building the store from the file\<close>

lemma Movimiento_kw_error: "Movimiento_kw item = Inl e \<Longrightarrow> e = TypeError"
  by (cases item) (auto split: if_splits option.splits)

lemma map_of_presente: "(map_of kw k = None) = (k \<notin> set (map fst kw))"
  by (simp add: map_of_eq_None_iff)

lemma Movimiento_kw_completo:
  "(Movimiento_kw item = Inl TypeError) = (\<not> registro_completo item)"
proof (cases item)
  case (PDict kw)
  show ?thesis
  proof (cases "set (map fst kw) = set campos")
    case True
    then have "\<forall>k \<in> set campos. map_of kw k \<noteq> None"
      by (simp add: map_of_presente)
    then obtain t m c d f where
      "map_of kw (py ''tipo'') = Some t" "map_of kw (py ''monto'') = Some m"
      "map_of kw (py ''categoria'') = Some c" "map_of kw (py ''descripcion'') = Some d"
      "map_of kw (py ''fecha'') = Some f"
      by (auto simp: campos_def)
    with True PDict show ?thesis by simp
  next
    case False
    show ?thesis
    proof (cases "\<exists>k \<in> set (map fst kw). k \<notin> set campos")
      case True
      with False PDict show ?thesis by simp
    next
      case sub: False
      with False obtain k where k: "k \<in> set campos" "k \<notin> set (map fst kw)"
        by auto
      then have "map_of kw k = None"
        by (simp add: map_of_presente)
      with k(1) have "Movimiento_kw (PDict kw) = Inl TypeError"
        using sub by (auto simp: campos_def split: option.splits)
      with False PDict show ?thesis by simp
    qed
  qed
qed simp_all

lemma construye_error: "construye items = Inl e \<Longrightarrow> e = TypeError"
  by (induction items arbitrary: e) (auto split: sum.splits dest: Movimiento_kw_error)

lemma construye_completo:
  "(construye items = Inl TypeError) = (\<exists>item \<in> set items. \<not> registro_completo item)"
proof (induction items)
  case Nil
  then show ?case by simp
next
  case (Cons item items)
  show ?case
  proof (cases "Movimiento_kw item")
    case (Inl e)
    then have "e = TypeError" by (rule Movimiento_kw_error)
    with Inl show ?thesis
      using Movimiento_kw_completo [of item] by simp
  next
    case (Inr m)
    then have "registro_completo item"
      using Movimiento_kw_completo [of item] by simp
    with Inr Cons.IH show ?thesis
      by (auto split: sum.splits dest: construye_error)
  qed
qed

text \<open>
  C6. When there is no file at the path, the constructor returns a store with no entry.
  When the file is not JSON, it raises \<open>JSONDecodeError\<close> (the specification's
  \<open>CorruptStore\<close>). When the file is a JSON array, it raises \<open>TypeError\<close> (the
  specification's \<open>MalformedRecord\<close>) exactly when some element of the array is not an
  object with every field of an entry and no other member.
\<close>

theorem GestorFinanzas_archivo:
  "(archivo w = None \<longrightarrow>
      fst (GestorFinanzas w) = Inr () \<and> entradas (snd (GestorFinanzas w)) = []) \<and>
   (archivo w = Some NoJSON \<longrightarrow> fst (GestorFinanzas w) = Inl JSONDecodeError) \<and>
   (archivo w = Some (JSON (PList items)) \<longrightarrow>
      (fst (GestorFinanzas w) = Inl TypeError) =
      (\<exists>item \<in> set items. \<not> registro_completo item))"
proof -
  have 1: "fst (GestorFinanzas w) = Inr () \<and> entradas (snd (GestorFinanzas w)) = []"
    if "archivo w = None"
  proof -
    from that have "cargados (archivo w) = Inr []"
      by (simp add: cargados_def)
    from GestorFinanzas_carga [OF this] show ?thesis
      by simp
  qed
  have 2: "fst (GestorFinanzas w) = Inl JSONDecodeError" if "archivo w = Some NoJSON"
  proof -
    from that have "cargados (archivo w) = Inl JSONDecodeError"
      by (simp add: cargados_def)
    then show ?thesis
      by (rule GestorFinanzas_error)
  qed
  have 3: "(fst (GestorFinanzas w) = Inl TypeError) =
      (\<exists>item \<in> set items. \<not> registro_completo item)"
    if "archivo w = Some (JSON (PList items))"
  proof -
    from that have c: "cargados (archivo w) = construye items"
      by (simp add: cargados_def)
    show ?thesis
    proof (cases "construye items")
      case (Inl e)
      then have "e = TypeError" by (rule construye_error)
      with Inl c GestorFinanzas_error [of w TypeError] construye_completo [of items]
      show ?thesis by simp
    next
      case (Inr ms)
      with c GestorFinanzas_carga [of w ms] construye_completo [of items]
      show ?thesis by simp
    qed
  qed
  from 1 2 3 show ?thesis
    by blast
qed

theorem GestorFinanzas_archivo_witness:
  "archivo mundo_vacio = None \<and>
   fst (GestorFinanzas mundo_vacio) = Inr () \<and> entradas (snd (GestorFinanzas mundo_vacio)) = [] \<and>
   archivo (mundo_vacio\<lparr>archivo := Some NoJSON\<rparr>) = Some NoJSON \<and>
   fst (GestorFinanzas (mundo_vacio\<lparr>archivo := Some NoJSON\<rparr>)) = Inl JSONDecodeError \<and>
   \<not> registro_completo (PDict [(py ''tipo'', PStr (py ''gasto''))]) \<and>
   fst (GestorFinanzas
     (mundo_vacio\<lparr>archivo := Some (JSON (PList [PDict [(py ''tipo'', PStr (py ''gasto''))]]))\<rparr>))
     = Inl TypeError"
proof -
  have n: "archivo mundo_vacio = None"
    by (simp add: mundo_vacio_def)
  have r: "\<not> registro_completo (PDict [(py ''tipo'', PStr (py ''gasto''))])"
    by (simp add: campos_def py_def)
  from n r
    GestorFinanzas_archivo [of mundo_vacio "[]"]
    GestorFinanzas_archivo [of "mundo_vacio\<lparr>archivo := Some NoJSON\<rparr>" "[]"]
    GestorFinanzas_archivo [of
      "mundo_vacio\<lparr>archivo := Some (JSON (PList [PDict [(py ''tipo'', PStr (py ''gasto''))]]))\<rparr>"
      "[PDict [(py ''tipo'', PStr (py ''gasto''))]]"]
  show ?thesis by simp
qed

section \<open>Operations that only read\<close>

text \<open>
  C9. \<open>resumen\<close> and \<open>resumen_por_categoria\<close> leave the heap and the file as they are,
  whatever they return or raise. \<open>listar\<close> allocates a list object and changes nothing
  else: the instances, the list of the store, the sequence of entries and the file are
  what they were. \<open>agregar_movimiento\<close>, when it accepts its arguments, makes the
  sequence one entry longer and writes the file.
\<close>

theorem consultas_solo_leen:
  "snd (resumen w) = w \<and> snd (resumen_por_categoria k w) = w \<and>
   instancias (snd (listar w)) = instancias w \<and>
   movimientos (snd (listar w)) = movimientos w \<and>
   listas (snd (listar w)) (movimientos w) = listas w (movimientos w) \<and>
   entradas (snd (listar w)) = entradas w \<and>
   archivo (snd (listar w)) = archivo w \<and>
   (t \<in> {py ''ingreso'', py ''gasto''} \<and> 0 < m \<longrightarrow>
      length (entradas (snd (agregar_movimiento hoy t m c d f w))) = length (entradas w) + 1 \<and>
      archivo (snd (agregar_movimiento hoy t m c d f w)) =
        Some (JSON (PList (map asdict (entradas (snd (agregar_movimiento hoy t m c d f w)))))))"
proof -
  have 1: "snd (resumen w) = w"
    by (simp add: resumen_def split: sum.splits)
  have 2: "snd (resumen_por_categoria k w) = w"
    by (simp add: resumen_por_categoria_def split: sum.splits)
  have 3: "instancias (snd (listar w)) = instancias w"
    "movimientos (snd (listar w)) = movimientos w"
    "listas (snd (listar w)) (movimientos w) = listas w (movimientos w)"
    "entradas (snd (listar w)) = entradas w"
    "archivo (snd (listar w)) = archivo w"
    by (simp_all add: listar_def nueva_lista_def entradas_def)
  have 4: "length (entradas (snd (agregar_movimiento hoy t m c d f w))) = length (entradas w) + 1"
    if "t \<in> {py ''ingreso'', py ''gasto''}" "0 < m"
    by (simp add: agregar_movimiento_valido [OF that] guardar_def entradas_def)
  from 1 2 3 4 archivo_agregar [of t m hoy c d f w] show ?thesis
    by blast
qed

theorem consultas_solo_leen_witness:
  "py ''gasto'' \<in> {py ''ingreso'', py ''gasto''} \<and> (0::rat) < 12 \<and>
   snd (resumen mundo_ej) = mundo_ej \<and>
   snd (resumen_por_categoria (py ''gasto'') mundo_ej) = mundo_ej \<and>
   entradas (snd (listar mundo_ej)) = entradas mundo_ej \<and>
   archivo (snd (listar mundo_ej)) = archivo mundo_ej \<and>
   length (entradas (snd (agregar_movimiento hoy_ej (py ''gasto'') 12 (py ''pan'') [] None
     mundo_ej))) = length (entradas mundo_ej) + 1"
proof -
  have m: "(0::rat) < 12" by simp
  from consultas_solo_leen
    [of mundo_ej "py ''gasto''" "py ''gasto''" 12 hoy_ej "py ''pan''" "[]" None]
    tipo_valido_ej m
  show ?thesis by blast
qed

section \<open>What the caller shares with the store\<close>








section \<open>The summary\<close>



lemma round_half_even_cerca: "\<bar>of_int (round_half_even y) - y\<bar> \<le> 1 / 2"
proof -
  define f where "f = (of_int \<lfloor>y\<rfloor> :: rat)"
  have "f \<le> y" and "y < f + 1"
    unfolding f_def by linarith+
  then show ?thesis
    unfolding round_half_even_def Let_def f_def [symmetric]
    by (auto simp: f_def [symmetric])
qed

lemma round2_cerca: "\<bar>round2 x - x\<bar> \<le> 1 / 200"
proof -
  have "\<bar>(of_int (round_half_even (x * 100)) - x * 100) / 100\<bar> \<le> (1 / 2) / 100"
    using round_half_even_cerca [of "x * 100"] by (simp only: abs_divide) simp
  then show ?thesis
    by (simp add: round2_def diff_divide_distrib)
qed







section \<open>The summary by category\<close>




















end
